theory Spec2Isabelle
  imports Complex_Main "HOL-Library.Word" "HOL-Library.Log_Nat"
begin

section \<open>Values of the Python program\<close>

text \<open>
  \<open>json.load\<close> turns the payload into Python values: \<open>None\<close>, \<open>bool\<close>, \<open>int\<close>, \<open>str\<close>,
  \<open>list\<close> and \<open>dict\<close>. A dict is given by its items (the keys of a Python dict are
  distinct, so \<open>map_of\<close> finds the one value of a key). Numbers with a fraction or an
  exponent, which Python decodes into floats, are not part of this value type: the
  invocation contract declares \<open>offset\<close> and \<open>limit\<close> as integers.
\<close>

datatype json =
    JNull
  | JBool bool
  | JInt int
  | JStr string
  | JArr "json list"
  | JObj "(string \<times> json) list"

datatype py_exc =
    JSONDecodeError string
  | UnicodeDecodeError
  | RecursionError
  | AttributeError
  | TypeError
  | ZeroDivisionError
  | OverflowError
  | OSError

text \<open>
  How the process ends: \<open>sys.exit(n)\<close>, or an exception that nothing catches. The
  interpreter reports an uncaught exception with exit status 1.
\<close>

datatype finish = SysExit int | Uncaught py_exc

record outcome =
  finish :: finish
  stdout :: "json list"
  stderr :: "string list"
  log :: string

text \<open>
  \<open>stdout\<close> holds the objects printed through \<open>json.dumps\<close>, \<open>stderr\<close> the strings
  printed by the program itself (the traceback of an uncaught exception is in \<open>finish\<close>),
  \<open>log\<close> the content of the statistics file when the process ends.
\<close>

definition exit_status :: "outcome \<Rightarrow> int" where
  "exit_status r = (case finish r of SysExit n \<Rightarrow> n | Uncaught x \<Rightarrow> 1)"

section \<open>The environment\<close>

text \<open>
  The file system, the clock and the flavour of \<open>os.path\<close> are outside the program.
  \<open>read_text_lines\<close> is what opening a path in text mode (\<open>errors='ignore'\<close>) and
  iterating over it yields; \<open>st_size\<close> is the size field of \<open>os.stat\<close>, a signed
  64-bit \<open>off_t\<close>; \<open>now\<close> is the clock already formatted by \<open>strftime\<close>;
  \<open>log_file\<close> is the content of \<open>LOG_FILE\<close> and \<open>log_writable\<close> says whether
  creating its directory, opening it for append and writing succeed.
\<close>

record world =
  nt :: bool
  path_exists :: "string \<Rightarrow> bool"
  read_text_lines :: "string \<Rightarrow> py_exc + string list"
  st_size :: "string \<Rightarrow> py_exc + 64 word"
  now :: string
  log_file :: string
  log_writable :: bool

section \<open>Configuration\<close>

definition MAX_FILE_LINES :: int where
  "MAX_FILE_LINES = 1000"

definition MAX_FILE_BYTES :: int where
  "MAX_FILE_BYTES = 50 * 1024"

definition MAX_SINGLE_READ_LINES :: int where
  "MAX_SINGLE_READ_LINES = 500"

definition MAX_SINGLE_READ_BYTES :: int where
  "MAX_SINGLE_READ_BYTES = 20 * 1024"

definition SKIP_EXTENSIONS :: "string list" where
  "SKIP_EXTENSIONS =
     [''.png'', ''.jpg'', ''.jpeg'', ''.gif'', ''.bmp'', ''.ico'', ''.pdf'',
      ''.exe'', ''.dll'', ''.so'', ''.dylib'']"

section \<open>Library functions the program calls\<close>

subsection \<open>Integers as text\<close>

definition digit :: "int \<Rightarrow> char" where
  "digit d = ''0123456789'' ! nat d"

function str_digits :: "int \<Rightarrow> string" where
  "str_digits n = (if n < 10 then [digit n] else str_digits (n div 10) @ [digit (n mod 10)])"
  by pat_completeness auto
termination
  by (relation "measure nat") auto

declare str_digits.simps [simp del]

text \<open>\<open>str(i)\<close> and \<open>f"{i}"\<close> for an int.\<close>

definition str_int :: "int \<Rightarrow> string" where
  "str_int i = (if i < 0 then ''-'' @ str_digits (- i) else str_digits i)"

fun join :: "string \<Rightarrow> string list \<Rightarrow> string" where
  "join sep [] = []"
| "join sep [x] = x"
| "join sep (x # y # ys) = x @ sep @ join sep (y # ys)"

subsection \<open>Float division and the \<open>.1f\<close> format\<close>

text \<open>
  A float is represented by the rational number it denotes. \<open>truediv a b\<close> is Python's
  \<open>a / b\<close> on two ints: the exact quotient rounded to the nearest binary64 value (53
  bits, ties to even, subnormal below \<open>2^-1022\<close>), \<open>OverflowError\<close> when that is out of
  range. The program divides only sizes of at least 1024 by 1024 or 1048576, so zero
  and negative quotients, where a float has a sign that a rational has not, do not
  occur in it.
\<close>

definition pow2 :: "int \<Rightarrow> rat" where
  "pow2 k = (if 0 \<le> k then 2 ^ nat k else 1 / 2 ^ nat (- k))"

definition round_half_even :: "rat \<Rightarrow> int" where
  "round_half_even x =
     (let n = \<lfloor>x\<rfloor>; r = x - of_int n
      in if r < 1 / 2 then n else if 1 / 2 < r then n + 1 else if even n then n else n + 1)"

definition truediv :: "int \<Rightarrow> int \<Rightarrow> py_exc + rat" where
  "truediv a b =
     (if b = 0 then Inl ZeroDivisionError
      else if a = 0 then Inr 0
      else
        let q = \<bar>of_int a / of_int b\<bar>;
            e0 = bitlen \<bar>a\<bar> - bitlen \<bar>b\<bar>;
            e = (if pow2 e0 \<le> q then e0 else e0 - 1);
            u = pow2 (max e (- 1022) - 52);
            r = of_int (round_half_even (q / u)) * u
        in if pow2 1024 \<le> r then Inl OverflowError
           else Inr (if (a < 0) \<noteq> (b < 0) then - r else r))"

definition fmt_1f :: "rat \<Rightarrow> string" where
  "fmt_1f x =
     (let t = round_half_even (\<bar>x\<bar> * 10)
      in (if x < 0 then ''-'' else []) @ str_int (t div 10) @ ''.'' @ str_int (t mod 10))"

subsection \<open>\<open>dict.get\<close>, \<open>os.path.splitext\<close>, \<open>str.lower\<close>\<close>

text \<open>Only a dict has a \<open>get\<close> method; on any other value the call raises.\<close>

definition dict_get :: "json \<Rightarrow> string \<Rightarrow> json \<Rightarrow> py_exc + json" where
  "dict_get d key dflt =
     (case d of
        JObj items \<Rightarrow> Inr (case map_of items key of None \<Rightarrow> dflt | Some v \<Rightarrow> v)
      | _ \<Rightarrow> Inl AttributeError)"

text \<open>\<open>p.rfind(c)\<close>: the highest index of \<open>c\<close> in \<open>p\<close>, or \<open>-1\<close>.\<close>

definition rfind :: "string \<Rightarrow> char \<Rightarrow> int" where
  "rfind p c =
     (if c \<in> set p then int (length p) - 1 - int (length (takeWhile (\<lambda>x. x \<noteq> c) (rev p)))
      else - 1)"

text \<open>
  \<open>splitext\<close> cuts at the last dot that follows the last separator, unless only dots
  stand between the separator and it. The separator is \<open>/\<close>, and on Windows also the
  backslash.
\<close>

definition splitext :: "bool \<Rightarrow> string \<Rightarrow> string \<times> string" where
  "splitext windows p =
     (let sepIndex = (if windows then max (rfind p (CHR 0x5C)) (rfind p CHR ''/'')
                      else rfind p CHR ''/'');
          dotIndex = rfind p CHR ''.''
      in if sepIndex < dotIndex \<and>
            list_ex (\<lambda>i. p ! nat i \<noteq> CHR ''.'') [sepIndex + 1 .. dotIndex - 1]
         then (take (nat dotIndex) p, drop (nat dotIndex) p)
         else (p, []))"

text \<open>
  \<open>lower\<close> on the ASCII letters. Python also lowers letters outside ASCII, to letters
  outside ASCII, which changes no membership in \<open>SKIP_EXTENSIONS\<close>.
\<close>

definition lower_char :: "char \<Rightarrow> char" where
  "lower_char c =
     (let n = of_char c :: nat in if 65 \<le> n \<and> n \<le> 90 then char_of (n + 32) else c)"

definition lower :: "string \<Rightarrow> string" where
  "lower s = map lower_char s"

section \<open>The functions of read-guard.py\<close>

definition get_file_line_count :: "world \<Rightarrow> string \<Rightarrow> int option" where
  "get_file_line_count w file_path =
     (case read_text_lines w file_path of
        Inl x \<Rightarrow> None
      | Inr ls \<Rightarrow> Some (int (length ls)))"

definition get_file_size :: "world \<Rightarrow> string \<Rightarrow> int option" where
  "get_file_size w file_path =
     (case st_size w file_path of
        Inl x \<Rightarrow> None
      | Inr sz \<Rightarrow> Some (sint sz))"

text \<open>
  \<open>log_stats\<close> returns the new content of the log. Every exception inside it is
  swallowed, and the content is then what it was.
\<close>

definition log_stats :: "world \<Rightarrow> string \<Rightarrow> int \<Rightarrow> int \<Rightarrow> bool \<Rightarrow> string \<Rightarrow> string" where
  "log_stats w file_path lines bytes_size blocked reason =
     (if log_writable w then
        let timestamp = now w;
            status = (if blocked then ''BLOCKED'' else ''ALLOWED'');
            log_entry = timestamp @ '' | '' @ status @ '' | lines='' @ str_int lines
              @ '' bytes='' @ str_int bytes_size @ '' | '' @ reason @ '' | '' @ file_path
              @ [CHR ''\<newline>'']
        in log_file w @ log_entry
      else log_file w)"

definition format_bytes :: "int \<Rightarrow> py_exc + string" where
  "format_bytes n =
     (if 1024 * 1024 \<le> n then
        (case truediv n (1024 * 1024) of
           Inl x \<Rightarrow> Inl x
         | Inr v \<Rightarrow> Inr (fmt_1f v @ ''MB''))
      else if 1024 \<le> n then
        (case truediv n 1024 of
           Inl x \<Rightarrow> Inl x
         | Inr v \<Rightarrow> Inr (fmt_1f v @ ''KB''))
      else Inr (str_int n @ ''B''))"

text \<open>The ways \<open>main\<close> ends without touching the log.\<close>

definition uncaught :: "world \<Rightarrow> py_exc \<Rightarrow> outcome" where
  "uncaught w x = \<lparr>finish = Uncaught x, stdout = [], stderr = [], log = log_file w\<rparr>"

definition exit0 :: "world \<Rightarrow> outcome" where
  "exit0 w = \<lparr>finish = SysExit 0, stdout = [], stderr = [], log = log_file w\<rparr>"

text \<open>A call that may raise: the exception ends the process, a value goes on.\<close>

definition or_raise :: "world \<Rightarrow> py_exc + 'a \<Rightarrow> ('a \<Rightarrow> outcome) \<Rightarrow> outcome" where
  "or_raise w r k = (case r of Inl x \<Rightarrow> uncaught w x | Inr v \<Rightarrow> k v)"

definition dq :: string where
  "dq = [CHR 0x22]"

definition sq :: string where
  "sq = [CHR 0x27]"

definition nl :: string where
  "nl = [CHR ''\<newline>'']"

text \<open>The two diagnostics and the directive of rule 3, as the source builds them.\<close>

definition paging_msg :: "string \<Rightarrow> string \<Rightarrow> string \<Rightarrow> string" where
  "paging_msg reason read_bytes file_path =
     ''BLOCKED: File exceeds thresholds: '' @ reason @ ''.'' @ nl
     @ ''You MUST specify both '' @ sq @ ''offset'' @ sq @ '' and '' @ sq @ ''limit'' @ sq
     @ '' parameters.'' @ nl @ nl
     @ ''Recommended approach:'' @ nl
     @ ''1. Use Grep to find target line numbers first'' @ nl
     @ ''2. Then Read with offset and limit (max '' @ str_int MAX_SINGLE_READ_LINES
     @ '' lines / '' @ read_bytes @ '')'' @ nl @ nl
     @ ''Example:'' @ nl
     @ ''  Grep: pattern='' @ dq @ ''function_name'' @ dq @ '' path='' @ dq @ file_path @ dq @ nl
     @ ''  Read: file_path='' @ dq @ file_path @ dq @ '', offset=<line-5>, limit=50''"

definition limit_msg :: "string \<Rightarrow> string" where
  "limit_msg limit_text =
     ''BLOCKED: Requested limit='' @ limit_text @ '' exceeds maximum ''
     @ str_int MAX_SINGLE_READ_LINES @ '' lines.'' @ nl
     @ ''Please reduce the limit parameter to '' @ str_int MAX_SINGLE_READ_LINES
     @ '' or less.''"

definition auto_limit_output :: "int \<Rightarrow> string \<Rightarrow> json" where
  "auto_limit_output file_lines size_text =
     JObj [(''hookSpecificOutput'', JObj
       [(''hookEventName'', JStr ''PreToolUse''),
        (''permissionDecision'', JStr ''allow''),
        (''permissionDecisionReason'', JStr (''Auto-added limit=''
           @ str_int MAX_SINGLE_READ_LINES @ '' (file: '' @ str_int file_lines
           @ '' lines, '' @ size_text @ '')'')),
        (''updatedInput'', JObj [(''limit'', JInt MAX_SINGLE_READ_LINES)])])]"

text \<open>Rule 2 writes the diagnostic, logs and leaves with status 2.\<close>

definition limit_block :: "world \<Rightarrow> string \<Rightarrow> int \<Rightarrow> int \<Rightarrow> string \<Rightarrow> outcome" where
  "limit_block w file_path file_lines file_bytes limit_text =
     \<lparr>finish = SysExit 2, stdout = [], stderr = [limit_msg limit_text],
      log = log_stats w file_path file_lines file_bytes True
              (''limit too large: '' @ limit_text)\<rparr>"

text \<open>Rule 3 and the final pass (lines 141 to 159 of \<open>main\<close>).\<close>

definition auto_or_pass :: "world \<Rightarrow> string \<Rightarrow> json \<Rightarrow> json \<Rightarrow> int \<Rightarrow> int \<Rightarrow> outcome" where
  "auto_or_pass w file_path offset limit file_lines file_bytes =
     (if offset \<noteq> JNull \<and> limit = JNull then
        or_raise w (format_bytes file_bytes) (\<lambda>size_text.
          \<lparr>finish = SysExit 0, stdout = [auto_limit_output file_lines size_text], stderr = [],
           log = log_stats w file_path file_lines file_bytes False ''auto-added limit''\<rparr>)
      else
        \<lparr>finish = SysExit 0, stdout = [], stderr = [],
         log = log_stats w file_path file_lines file_bytes False ''passed''\<rparr>)"

text \<open>
  The rules (lines 104 to 159 of \<open>main\<close>), reached with both metrics known. In rule 2,
  \<open>limit > MAX_SINGLE_READ_LINES\<close> compares an int, or a bool as the int it is, and
  raises \<open>TypeError\<close> on a str, a list or a dict.
\<close>

definition main_rules :: "world \<Rightarrow> string \<Rightarrow> json \<Rightarrow> json \<Rightarrow> int \<Rightarrow> int \<Rightarrow> outcome" where
  "main_rules w file_path offset limit file_lines file_bytes =
     (let exceeds_lines = MAX_FILE_LINES < file_lines;
          exceeds_bytes = MAX_FILE_BYTES < file_bytes
      in
      if (exceeds_lines \<or> exceeds_bytes) \<and> (offset = JNull \<or> limit = JNull) then
        or_raise w
          (if exceeds_bytes then
             (case format_bytes file_bytes of
                Inl x \<Rightarrow> Inl x
              | Inr actual \<Rightarrow>
                  (case format_bytes MAX_FILE_BYTES of
                     Inl x \<Rightarrow> Inl x
                   | Inr bound \<Rightarrow> Inr [actual @ '' (>'' @ bound @ '')'']))
           else Inr [])
          (\<lambda>bytes_part.
            let reason_parts =
                  (if exceeds_lines
                   then [str_int file_lines @ '' lines (>'' @ str_int MAX_FILE_LINES @ '')'']
                   else []) @ bytes_part;
                reason = join '' AND '' reason_parts
            in or_raise w (format_bytes MAX_SINGLE_READ_BYTES) (\<lambda>read_bytes.
                 \<lparr>finish = SysExit 2, stdout = [],
                  stderr = [paging_msg reason read_bytes file_path],
                  log = log_stats w file_path file_lines file_bytes True
                          (''missing offset/limit: '' @ reason)\<rparr>))
      else
        (case limit of
           JNull \<Rightarrow> auto_or_pass w file_path offset limit file_lines file_bytes
         | JInt l \<Rightarrow>
             if MAX_SINGLE_READ_LINES < l
             then limit_block w file_path file_lines file_bytes (str_int l)
             else auto_or_pass w file_path offset limit file_lines file_bytes
         | JBool b \<Rightarrow>
             if MAX_SINGLE_READ_LINES < (if b then 1 else 0)
             then limit_block w file_path file_lines file_bytes (if b then ''True'' else ''False'')
             else auto_or_pass w file_path offset limit file_lines file_bytes
         | _ \<Rightarrow> uncaught w TypeError))"

text \<open>
  \<open>main\<close>, given what \<open>json.load(sys.stdin)\<close> returns or raises. Only
  \<open>JSONDecodeError\<close> is caught. \<open>os.path.splitext\<close> raises \<open>TypeError\<close> on a path
  that is not a str.
\<close>

definition main :: "world \<Rightarrow> py_exc + json \<Rightarrow> outcome" where
  "main w payload =
     (case payload of
        Inl (JSONDecodeError e) \<Rightarrow>
          \<lparr>finish = SysExit 1, stdout = [], stderr = [''[Hook Error] Invalid JSON: '' @ e],
           log = log_file w\<rparr>
      | Inl x \<Rightarrow> uncaught w x
      | Inr input_data \<Rightarrow>
          or_raise w (dict_get input_data ''tool_name'' (JStr [])) (\<lambda>tool_name.
          or_raise w (dict_get input_data ''tool_input'' (JObj [])) (\<lambda>tool_input.
          if tool_name \<noteq> JStr ''Read'' then exit0 w
          else
          or_raise w (dict_get tool_input ''file_path'' (JStr [])) (\<lambda>path_value.
          or_raise w (dict_get tool_input ''offset'' JNull) (\<lambda>offset.
          or_raise w (dict_get tool_input ''limit'' JNull) (\<lambda>limit.
          case path_value of
            JStr file_path \<Rightarrow>
              let ext = lower (snd (splitext (nt w) file_path))
              in if ext \<in> set SKIP_EXTENSIONS then exit0 w
                 else if \<not> path_exists w file_path then exit0 w
                 else
                   (case get_file_line_count w file_path of
                      None \<Rightarrow> exit0 w
                    | Some file_lines \<Rightarrow>
                        (case get_file_size w file_path of
                           None \<Rightarrow> exit0 w
                         | Some file_bytes \<Rightarrow>
                             main_rules w file_path offset limit file_lines file_bytes))
          | _ \<Rightarrow> uncaught w TypeError))))))"

section \<open>Requests and files the claims speak of\<close>

text \<open>
  \<open>read_request\<close>: the payload is a dict that names the Read tool and whose
  \<open>tool_input\<close> is a dict with the given path; \<open>offset\<close> and \<open>limit\<close> are what the
  two \<open>get\<close> calls return, \<open>JNull\<close> for a key that is absent or null.
\<close>

definition read_request :: "json \<Rightarrow> string \<Rightarrow> json \<Rightarrow> json \<Rightarrow> bool" where
  "read_request input_data file_path offset limit \<longleftrightarrow>
     dict_get input_data ''tool_name'' (JStr []) = Inr (JStr ''Read'') \<and>
     (case dict_get input_data ''tool_input'' (JObj []) of
        Inl x \<Rightarrow> False
      | Inr tool_input \<Rightarrow>
          dict_get tool_input ''file_path'' (JStr []) = Inr (JStr file_path) \<and>
          dict_get tool_input ''offset'' JNull = Inr offset \<and>
          dict_get tool_input ''limit'' JNull = Inr limit)"

text \<open>An existing file whose extension is not skipped.\<close>

definition guarded :: "world \<Rightarrow> string \<Rightarrow> bool" where
  "guarded w file_path \<longleftrightarrow>
     lower (snd (splitext (nt w) file_path)) \<notin> set SKIP_EXTENSIONS \<and> path_exists w file_path"

text \<open>Such a file with both metrics known: the rules are reached with them.\<close>

definition probed :: "world \<Rightarrow> string \<Rightarrow> int \<Rightarrow> int \<Rightarrow> bool" where
  "probed w file_path file_lines file_bytes \<longleftrightarrow>
     guarded w file_path \<and>
     get_file_line_count w file_path = Some file_lines \<and>
     get_file_size w file_path = Some file_bytes"

subsection \<open>Concrete invocations\<close>

definition sample_request :: "string \<Rightarrow> json \<Rightarrow> json \<Rightarrow> json" where
  "sample_request file_path offset limit =
     JObj [(''tool_name'', JStr ''Read''),
           (''tool_input'', JObj [(''file_path'', JStr file_path), (''offset'', offset),
                                  (''limit'', limit)])]"

text \<open>
  A POSIX machine with one file, of the given number of lines and the given size, an
  empty log and a log directory that can be written.
\<close>

definition sample_world :: "string \<Rightarrow> nat \<Rightarrow> 64 word \<Rightarrow> world" where
  "sample_world name line_count byte_count =
     \<lparr>nt = False,
      path_exists = (\<lambda>p. p = name),
      read_text_lines = (\<lambda>p. if p = name then Inr (replicate line_count ''text'') else Inl OSError),
      st_size = (\<lambda>p. if p = name then Inr byte_count else Inl OSError),
      now = ''2025-01-01 12:00:00'',
      log_file = [],
      log_writable = True\<rparr>"

text \<open>The same machine with a file that exists and may not be opened.\<close>

definition locked_world :: "string \<Rightarrow> world" where
  "locked_world name =
     \<lparr>nt = False,
      path_exists = (\<lambda>p. p = name),
      read_text_lines = (\<lambda>p. Inl OSError),
      st_size = (\<lambda>p. if p = name then Inr 4096 else Inl OSError),
      now = ''2025-01-01 12:00:00'',
      log_file = [],
      log_writable = True\<rparr>"

text \<open>The same machine with a file that is one line of 30000 bytes.\<close>

definition long_line_world :: "string \<Rightarrow> world" where
  "long_line_world name =
     \<lparr>nt = False,
      path_exists = (\<lambda>p. p = name),
      read_text_lines =
        (\<lambda>p. if p = name then Inr [replicate 30000 CHR ''a''] else Inl OSError),
      st_size = (\<lambda>p. if p = name then Inr 30000 else Inl OSError),
      now = ''2025-01-01 12:00:00'',
      log_file = [],
      log_writable = True\<rparr>"

section \<open>Auxiliary facts\<close>

lemma pow2_pos: "0 < pow2 k"
  by (simp add: pow2_def)

lemma pow2_mono: "k \<le> m \<Longrightarrow> pow2 k \<le> pow2 m"
proof -
  assume km: "k \<le> m"
  have eq: "pow2 j = 2 powi j" for j
    by (simp add: pow2_def power_int_def power_inverse inverse_eq_divide power_one_over)
  show ?thesis unfolding eq using km by (intro power_int_increasing) auto
qed

lemma round_half_even_le: "of_int (round_half_even x) \<le> x + 1"
proof -
  have "round_half_even x \<le> \<lfloor>x\<rfloor> + 1"
    by (simp add: round_half_even_def Let_def)
  then have "(of_int (round_half_even x) :: rat) \<le> of_int (\<lfloor>x\<rfloor> + 1)"
    unfolding of_int_le_iff .
  also have "\<dots> \<le> x + 1"
    by simp
  finally show ?thesis .
qed

lemma truediv_in_range:
  assumes a: "0 < a" "a < 2 ^ 63" and b: "0 < b"
  shows "\<exists>v. truediv a b = Inr v"
proof -
  define q :: rat where "q = \<bar>of_int a / of_int b\<bar>"
  define e0 where "e0 = bitlen \<bar>a\<bar> - bitlen \<bar>b\<bar>"
  define e where "e = (if pow2 e0 \<le> q then e0 else e0 - 1)"
  define u where "u = pow2 (max e (- 1022) - 52)"
  define r where "r = of_int (round_half_even (q / u)) * u"
  have "bitlen \<bar>a\<bar> \<le> 63"
    using a by (simp add: bitlen_le_iff_power)
  moreover have "0 \<le> bitlen \<bar>b\<bar>"
    by (rule bitlen_nonneg)
  ultimately have "e \<le> 63"
    by (simp add: e_def e0_def)
  then have "u \<le> pow2 11"
    unfolding u_def by (intro pow2_mono) simp
  then have u11: "u \<le> 2048"
    by (simp add: pow2_def)
  have upos: "0 < u"
    by (simp add: u_def pow2_pos)
  have "of_int 1 \<le> (of_int b :: rat)"
    using b unfolding of_int_le_iff by simp
  then have b1: "1 \<le> (of_int b :: rat)" by simp
  have "q = of_int a / of_int b"
    using a b by (simp add: q_def)
  also have "\<dots> \<le> of_int a / 1"
    using a b1 by (intro divide_left_mono) auto
  finally have qa: "q \<le> of_int a" by simp
  have "(of_int a :: rat) < of_int (2 ^ 63)"
    using a unfolding of_int_less_iff by simp
  then have qlt: "q < 2 ^ 63" using qa by simp
  have "r \<le> (q / u + 1) * u"
    unfolding r_def using upos round_half_even_le [of "q / u"]
    by (intro mult_right_mono) auto
  also have "\<dots> = q + u"
    using upos by (simp add: field_simps)
  finally have "r < 2 ^ 63 + 2048"
    using qlt u11 by simp
  also have "\<dots> \<le> (pow2 1024 :: rat)"
    by (simp add: pow2_def)
  finally have "\<not> pow2 1024 \<le> r" by simp
  then show ?thesis
    using a b unfolding truediv_def Let_def q_def [symmetric] e0_def [symmetric]
      e_def [symmetric] u_def [symmetric] r_def [symmetric]
    by simp
qed

lemma format_bytes_in_range:
  assumes "n < 2 ^ 63"
  shows "\<exists>t. format_bytes n = Inr t"
proof (cases "1024 \<le> n")
  case False
  then show ?thesis by (simp add: format_bytes_def)
next
  case True
  then have pos: "0 < n" by simp
  obtain v1 where v1: "truediv n 1024 = Inr v1"
    using truediv_in_range [OF pos assms, of 1024] by auto
  obtain v2 where v2: "truediv n (1024 * 1024) = Inr v2"
    using truediv_in_range [OF pos assms, of "1024 * 1024"] by auto
  show ?thesis
    using v1 v2 by (simp add: format_bytes_def)
qed

lemma get_file_size_range:
  "get_file_size w file_path = Some file_bytes \<Longrightarrow> file_bytes < 2 ^ 63"
  using sint_lt [where 'a = 64]
  by (auto simp: get_file_size_def split: sum.splits)

lemma format_MAX_FILE_BYTES: "format_bytes MAX_FILE_BYTES = Inr ''50.0KB''"
  by code_simp

lemma format_MAX_SINGLE_READ_BYTES: "format_bytes MAX_SINGLE_READ_BYTES = Inr ''20.0KB''"
  by code_simp

lemma str_MAX_FILE_LINES: "str_int MAX_FILE_LINES = ''1000''"
  by code_simp

lemma str_MAX_SINGLE_READ_LINES: "str_int MAX_SINGLE_READ_LINES = ''500''"
  by code_simp

lemma main_read_request:
  assumes "read_request input_data file_path offset limit"
  shows "main w (Inr input_data) =
     (if lower (snd (splitext (nt w) file_path)) \<in> set SKIP_EXTENSIONS then exit0 w
      else if \<not> path_exists w file_path then exit0 w
      else case get_file_line_count w file_path of
          None \<Rightarrow> exit0 w
        | Some file_lines \<Rightarrow>
            (case get_file_size w file_path of
               None \<Rightarrow> exit0 w
             | Some file_bytes \<Rightarrow> main_rules w file_path offset limit file_lines file_bytes))"
  using assms
  by (auto simp: read_request_def main_def or_raise_def Let_def split: sum.splits)

lemma main_probed:
  assumes "read_request input_data file_path offset limit"
    and "probed w file_path file_lines file_bytes"
  shows "main w (Inr input_data) = main_rules w file_path offset limit file_lines file_bytes"
  using assms(2) by (simp add: main_read_request [OF assms(1)] probed_def guarded_def)

lemma main_rules_paging:
  assumes over: "MAX_FILE_LINES < file_lines \<or> MAX_FILE_BYTES < file_bytes"
    and part: "offset = JNull \<or> limit = JNull"
    and fb: "format_bytes file_bytes = Inr actual"
  shows "main_rules w file_path offset limit file_lines file_bytes =
     (let reason =
        (if MAX_FILE_LINES < file_lines \<and> MAX_FILE_BYTES < file_bytes
         then str_int file_lines @ '' lines (>1000) AND '' @ actual @ '' (>50.0KB)''
         else if MAX_FILE_LINES < file_lines then str_int file_lines @ '' lines (>1000)''
         else actual @ '' (>50.0KB)'')
      in \<lparr>finish = SysExit 2, stdout = [],
          stderr = [paging_msg reason ''20.0KB'' file_path],
          log = log_stats w file_path file_lines file_bytes True
                  (''missing offset/limit: '' @ reason)\<rparr>)"
  using over part
  by (auto simp: main_rules_def Let_def or_raise_def fb format_MAX_FILE_BYTES
      format_MAX_SINGLE_READ_BYTES str_MAX_FILE_LINES)

lemma main_rules_no_paging:
  assumes "\<not> ((MAX_FILE_LINES < file_lines \<or> MAX_FILE_BYTES < file_bytes) \<and>
             (offset = JNull \<or> limit = JNull))"
  shows "main_rules w file_path offset limit file_lines file_bytes =
     (case limit of
        JNull \<Rightarrow> auto_or_pass w file_path offset limit file_lines file_bytes
      | JInt l \<Rightarrow>
          if MAX_SINGLE_READ_LINES < l
          then limit_block w file_path file_lines file_bytes (str_int l)
          else auto_or_pass w file_path offset limit file_lines file_bytes
      | JBool b \<Rightarrow> auto_or_pass w file_path offset limit file_lines file_bytes
      | _ \<Rightarrow> uncaught w TypeError)"
  using assms
  by (auto simp: main_rules_def Let_def MAX_SINGLE_READ_LINES_def split: json.splits)

lemma thresholds:
  "MAX_FILE_LINES = 1000" "MAX_FILE_BYTES = 51200" "MAX_SINGLE_READ_LINES = 500"
  by (simp_all add: MAX_FILE_LINES_def MAX_FILE_BYTES_def MAX_SINGLE_READ_LINES_def)

lemma probed_format:
  "probed w file_path file_lines file_bytes \<Longrightarrow> \<exists>t. format_bytes file_bytes = Inr t"
  by (auto simp: probed_def intro: format_bytes_in_range get_file_size_range)

lemma limit_msg_text:
  "limit_msg t = ''BLOCKED: Requested limit='' @ t @ '' exceeds maximum 500 lines.'' @ nl
     @ ''Please reduce the limit parameter to 500 or less.''"
  by (simp add: limit_msg_def str_MAX_SINGLE_READ_LINES)

lemma auto_limit_output_text:
  "auto_limit_output file_lines size_text =
     JObj [(''hookSpecificOutput'', JObj
       [(''hookEventName'', JStr ''PreToolUse''),
        (''permissionDecision'', JStr ''allow''),
        (''permissionDecisionReason'', JStr (''Auto-added limit=500 (file: ''
           @ str_int file_lines @ '' lines, '' @ size_text @ '')'')),
        (''updatedInput'', JObj [(''limit'', JInt 500)])])]"
  by (simp add: auto_limit_output_def str_MAX_SINGLE_READ_LINES)
    (simp add: thresholds)

lemma auto_or_pass_auto:
  assumes "offset \<noteq> JNull" and "format_bytes file_bytes = Inr size_text"
  shows "auto_or_pass w file_path offset JNull file_lines file_bytes =
     \<lparr>finish = SysExit 0, stdout = [auto_limit_output file_lines size_text], stderr = [],
      log = log_stats w file_path file_lines file_bytes False ''auto-added limit''\<rparr>"
  using assms by (simp add: auto_or_pass_def or_raise_def)

lemma auto_or_pass_pass:
  assumes "offset = JNull \<or> limit \<noteq> JNull"
  shows "auto_or_pass w file_path offset limit file_lines file_bytes =
     \<lparr>finish = SysExit 0, stdout = [], stderr = [],
      log = log_stats w file_path file_lines file_bytes False ''passed''\<rparr>"
  using assms by (auto simp: auto_or_pass_def)


lemma exit_status_auto_or_pass:
  "exit_status (auto_or_pass w file_path offset limit file_lines file_bytes) \<in> {0, 1, 2}"
  by (simp add: auto_or_pass_def or_raise_def exit_status_def uncaught_def split: sum.splits)

lemma exit_status_main_rules:
  "exit_status (main_rules w file_path offset limit file_lines file_bytes) \<in> {0, 1, 2}"
proof (cases "(MAX_FILE_LINES < file_lines \<or> MAX_FILE_BYTES < file_bytes) \<and>
    (offset = JNull \<or> limit = JNull)")
  case True
  then show ?thesis
    by (simp add: main_rules_def Let_def or_raise_def exit_status_def uncaught_def
        split: sum.splits)
next
  case False
  have "exit_status (limit_block w file_path file_lines file_bytes t) = 2" for t
    by (simp add: limit_block_def exit_status_def)
  moreover have "exit_status (uncaught w TypeError) = 1"
    by (simp add: uncaught_def exit_status_def)
  ultimately show ?thesis
    using exit_status_auto_or_pass [of w file_path offset limit file_lines file_bytes]
    by (auto simp: main_rules_no_paging [OF False] split: json.splits)
qed

lemma exit_status_main: "exit_status (main w (Inr input_data)) \<in> {0, 1, 2}"
proof -
  have u: "exit_status (uncaught w y) = 1" for y
    by (simp add: uncaught_def exit_status_def)
  have z: "exit_status (exit0 w) = 0"
    by (simp add: exit0_def exit_status_def)
  show ?thesis
    using exit_status_main_rules
    by (simp add: main_def or_raise_def Let_def u z split: sum.splits json.splits option.splits)
qed

section \<open>The claims\<close>



text \<open>
  Claim C2, as stated, fails: a limit above 500 is not blocked when the path has a
  skipped extension (nor when the file is missing or cannot be probed). Here a request
  with limit 600 for an existing image of 50 lines and 2 KB leaves with status 0.
\<close>

theorem limit_ceiling_skipped_counterexample:
  "read_request (sample_request ''shot.png'' JNull (JInt 600)) ''shot.png'' JNull (JInt 600) \<and>
   path_exists (sample_world ''shot.png'' 50 2048) ''shot.png'' \<and>
   get_file_line_count (sample_world ''shot.png'' 50 2048) ''shot.png'' = Some 50 \<and>
   get_file_size (sample_world ''shot.png'' 50 2048) ''shot.png'' = Some 2048 \<and>
   main (sample_world ''shot.png'' 50 2048) (Inr (sample_request ''shot.png'' JNull (JInt 600)))
     = \<lparr>finish = SysExit 0, stdout = [], stderr = [], log = []\<rparr>"
  by code_simp

text \<open>
  Claim C2, amended. A Read request with a limit above 500 on an existing file with an
  extension that is not skipped and with known metrics is blocked, whatever the line
  count, the byte size and the offset. The block comes from the paging rule when the
  file exceeds a threshold and the offset is missing; otherwise it comes from the
  ceiling rule, whose diagnostic cites the requested limit and the ceiling of 500.
\<close>

theorem limit_ceiling_blocks:
  assumes "read_request input_data file_path offset (JInt l)"
    and "probed w file_path file_lines file_bytes"
    and "500 < l"
  shows "finish (main w (Inr input_data)) = SysExit 2 \<and>
     stdout (main w (Inr input_data)) = [] \<and>
     (if (1000 < file_lines \<or> 51200 < file_bytes) \<and> offset = JNull
      then \<exists>reason. stderr (main w (Inr input_data)) =
             [paging_msg reason ''20.0KB'' file_path]
      else stderr (main w (Inr input_data)) =
             [''BLOCKED: Requested limit='' @ str_int l @ '' exceeds maximum 500 lines.'' @ nl
              @ ''Please reduce the limit parameter to 500 or less.''])"
proof (cases "(1000 < file_lines \<or> 51200 < file_bytes) \<and> offset = JNull")
  case True
  obtain actual where fb: "format_bytes file_bytes = Inr actual"
    using probed_format [OF assms(2)] by auto
  have over: "MAX_FILE_LINES < file_lines \<or> MAX_FILE_BYTES < file_bytes"
    using True by (simp add: thresholds)
  have part: "offset = JNull \<or> JInt l = JNull"
    using True by simp
  show ?thesis
    unfolding main_probed [OF assms(1,2)] main_rules_paging [OF over part fb]
    using True by (auto simp: Let_def)
next
  case False
  then have "\<not> ((MAX_FILE_LINES < file_lines \<or> MAX_FILE_BYTES < file_bytes) \<and>
      (offset = JNull \<or> JInt l = JNull))"
    by (simp add: thresholds)
  from main_rules_no_paging [OF this] show ?thesis
    unfolding main_probed [OF assms(1,2)]
    using False assms(3) by (auto simp: thresholds limit_block_def limit_msg_text)
qed

text \<open>Scenario 4 of the specification: 50 lines, no offset, limit 600.\<close>

theorem limit_ceiling_blocks_witness:
  "read_request (sample_request ''small.txt'' JNull (JInt 600)) ''small.txt'' JNull (JInt 600) \<and>
   probed (sample_world ''small.txt'' 50 2048) ''small.txt'' 50 2048 \<and>
   finish (main (sample_world ''small.txt'' 50 2048)
     (Inr (sample_request ''small.txt'' JNull (JInt 600)))) = SysExit 2 \<and>
   stderr (main (sample_world ''small.txt'' 50 2048)
     (Inr (sample_request ''small.txt'' JNull (JInt 600)))) =
     [''BLOCKED: Requested limit=600 exceeds maximum 500 lines.'' @ nl
      @ ''Please reduce the limit parameter to 500 or less.'']"
proof -
  have r: "read_request (sample_request ''small.txt'' JNull (JInt 600)) ''small.txt''
      JNull (JInt 600)"
    by code_simp
  have p: "probed (sample_world ''small.txt'' 50 2048) ''small.txt'' 50 2048"
    by code_simp
  have s: "str_int 600 = ''600''"
    by code_simp
  show ?thesis
    using limit_ceiling_blocks [OF r p] r p s by simp
qed

text \<open>
  Claim C3. A Read request with an offset and no limit, on an existing file with an
  extension that is not skipped for which the rules are evaluated and neither rule 1 nor
  rule 2 blocks, is allowed with an amended input: exit status 0, nothing on stderr, and
  on stdout the directive whose \<open>updatedInput\<close> sets \<open>limit\<close> to 500.
\<close>

theorem offset_without_limit_gets_limit:
  assumes "read_request input_data file_path offset JNull"
    and "offset \<noteq> JNull"
    and "probed w file_path file_lines file_bytes"
    and "finish (main w (Inr input_data)) \<noteq> SysExit 2"
  shows "\<exists>size_text. format_bytes file_bytes = Inr size_text \<and>
     finish (main w (Inr input_data)) = SysExit 0 \<and>
     stderr (main w (Inr input_data)) = [] \<and>
     stdout (main w (Inr input_data)) =
       [JObj [(''hookSpecificOutput'', JObj
         [(''hookEventName'', JStr ''PreToolUse''),
          (''permissionDecision'', JStr ''allow''),
          (''permissionDecisionReason'', JStr (''Auto-added limit=500 (file: ''
             @ str_int file_lines @ '' lines, '' @ size_text @ '')'')),
          (''updatedInput'', JObj [(''limit'', JInt 500)])])]]"
proof -
  obtain size_text where fb: "format_bytes file_bytes = Inr size_text"
    using probed_format [OF assms(3)] by auto
  have rules: "main w (Inr input_data) =
      main_rules w file_path offset JNull file_lines file_bytes"
    by (rule main_probed [OF assms(1,3)])
  have within: "\<not> (MAX_FILE_LINES < file_lines \<or> MAX_FILE_BYTES < file_bytes)"
  proof
    assume over: "MAX_FILE_LINES < file_lines \<or> MAX_FILE_BYTES < file_bytes"
    have part: "offset = JNull \<or> JNull = JNull"
      by simp
    have "finish (main_rules w file_path offset JNull file_lines file_bytes) = SysExit 2"
      by (simp add: main_rules_paging [OF over part fb] Let_def)
    with assms(4) rules show False by simp
  qed
  then have "main_rules w file_path offset JNull file_lines file_bytes =
      auto_or_pass w file_path offset JNull file_lines file_bytes"
    by (simp add: main_rules_no_paging)
  then show ?thesis
    using fb by (simp add: rules auto_or_pass_auto [OF assms(2) fb] auto_limit_output_text)
qed

text \<open>Scenario 3 of the specification: 50 lines, 2 KB, offset 5, no limit.\<close>

theorem offset_without_limit_gets_limit_witness:
  "read_request (sample_request ''small.txt'' (JInt 5) JNull) ''small.txt'' (JInt 5) JNull \<and>
   probed (sample_world ''small.txt'' 50 2048) ''small.txt'' 50 2048 \<and>
   finish (main (sample_world ''small.txt'' 50 2048)
     (Inr (sample_request ''small.txt'' (JInt 5) JNull))) = SysExit 0 \<and>
   stdout (main (sample_world ''small.txt'' 50 2048)
     (Inr (sample_request ''small.txt'' (JInt 5) JNull))) =
       [JObj [(''hookSpecificOutput'', JObj
         [(''hookEventName'', JStr ''PreToolUse''),
          (''permissionDecision'', JStr ''allow''),
          (''permissionDecisionReason'',
             JStr ''Auto-added limit=500 (file: 50 lines, 2.0KB)''),
          (''updatedInput'', JObj [(''limit'', JInt 500)])])]]"
proof -
  have r: "read_request (sample_request ''small.txt'' (JInt 5) JNull) ''small.txt''
      (JInt 5) JNull"
    by code_simp
  have p: "probed (sample_world ''small.txt'' 50 2048) ''small.txt'' 50 2048"
    by code_simp
  have n: "finish (main (sample_world ''small.txt'' 50 2048)
      (Inr (sample_request ''small.txt'' (JInt 5) JNull))) \<noteq> SysExit 2"
    by code_simp
  have s: "str_int 50 = ''50''" "format_bytes 2048 = Inr ''2.0KB''"
    by code_simp+
  show ?thesis
    using offset_without_limit_gets_limit [OF r _ p n] r p s by auto
qed

text \<open>
  Claim C4. When the file has at most 1000 lines and at most 51200 bytes and the limit,
  if one is supplied, is at most 500, no Read request is blocked: the exit status is 0,
  nothing is written to stderr, and stdout is empty (Allow) or carries the directive that
  sets the limit to 500 (AllowWithAmendedInput).
\<close>

theorem small_file_never_blocked:
  assumes "read_request input_data file_path offset limit"
    and "limit = JNull \<or> limit = JInt l \<and> l \<le> 500"
    and "get_file_line_count w file_path = Some file_lines"
    and "file_lines \<le> 1000"
    and "get_file_size w file_path = Some file_bytes"
    and "file_bytes \<le> 51200"
  shows "finish (main w (Inr input_data)) = SysExit 0 \<and>
     stderr (main w (Inr input_data)) = [] \<and>
     (stdout (main w (Inr input_data)) = [] \<or>
      (\<exists>why. stdout (main w (Inr input_data)) =
         [JObj [(''hookSpecificOutput'', JObj
           [(''hookEventName'', JStr ''PreToolUse''),
            (''permissionDecision'', JStr ''allow''),
            (''permissionDecisionReason'', JStr why),
            (''updatedInput'', JObj [(''limit'', JInt 500)])])]]))"
proof -
  obtain size_text where fb: "format_bytes file_bytes = Inr size_text"
    using format_bytes_in_range [OF get_file_size_range [OF assms(5)]] by auto
  have within: "\<not> ((MAX_FILE_LINES < file_lines \<or> MAX_FILE_BYTES < file_bytes) \<and>
      (offset = JNull \<or> limit = JNull))"
    using assms(4,6) by (simp add: thresholds)
  have pass: "?thesis"
    if "main w (Inr input_data) =
      auto_or_pass w file_path offset limit file_lines file_bytes"
  proof (cases "offset \<noteq> JNull \<and> limit = JNull")
    case True
    then show ?thesis
      using that by (simp add: auto_or_pass_auto [OF _ fb] auto_limit_output_text)
  next
    case False
    then have "offset = JNull \<or> limit \<noteq> JNull" by auto
    then show ?thesis
      using that by (simp add: auto_or_pass_pass)
  qed
  have rules: "main_rules w file_path offset limit file_lines file_bytes =
      auto_or_pass w file_path offset limit file_lines file_bytes"
    using assms(2) by (auto simp: main_rules_no_paging [OF within] thresholds)
  show ?thesis
    using pass rules assms(3,5)
    by (auto simp: main_read_request [OF assms(1)] exit0_def)
qed

text \<open>A file of 50 lines and 2 KB read with offset 5 and limit 100.\<close>

theorem small_file_never_blocked_witness:
  "read_request (sample_request ''small.txt'' (JInt 5) (JInt 100)) ''small.txt''
     (JInt 5) (JInt 100) \<and>
   get_file_line_count (sample_world ''small.txt'' 50 2048) ''small.txt'' = Some 50 \<and>
   get_file_size (sample_world ''small.txt'' 50 2048) ''small.txt'' = Some 2048 \<and>
   finish (main (sample_world ''small.txt'' 50 2048)
     (Inr (sample_request ''small.txt'' (JInt 5) (JInt 100)))) = SysExit 0 \<and>
   stderr (main (sample_world ''small.txt'' 50 2048)
     (Inr (sample_request ''small.txt'' (JInt 5) (JInt 100)))) = []"
proof -
  have r: "read_request (sample_request ''small.txt'' (JInt 5) (JInt 100)) ''small.txt''
      (JInt 5) (JInt 100)"
    by code_simp
  have l: "get_file_line_count (sample_world ''small.txt'' 50 2048) ''small.txt'' = Some 50"
    by code_simp
  have b: "get_file_size (sample_world ''small.txt'' 50 2048) ''small.txt'' = Some 2048"
    by code_simp
  show ?thesis
    using small_file_never_blocked [OF r _ l _ b, of 100] r l b by simp
qed

text \<open>
  Claim C5. A Read request that supplies both an offset and a limit of at most 500, on
  an existing file with an extension that is not skipped whose metrics exceed a file
  threshold, is allowed: rule 1 does not fire, the exit status is 0, nothing is written
  to stdout or stderr, and the log records the pass.
\<close>

theorem paged_request_on_large_file_allowed:
  assumes "read_request input_data file_path offset (JInt l)"
    and "offset \<noteq> JNull"
    and "l \<le> 500"
    and "probed w file_path file_lines file_bytes"
    and "1000 < file_lines \<or> 51200 < file_bytes"
  shows "main w (Inr input_data) =
     \<lparr>finish = SysExit 0, stdout = [], stderr = [],
      log = log_stats w file_path file_lines file_bytes False ''passed''\<rparr>"
proof -
  have "\<not> ((MAX_FILE_LINES < file_lines \<or> MAX_FILE_BYTES < file_bytes) \<and>
      (offset = JNull \<or> JInt l = JNull))"
    using assms(2) by simp
  from main_rules_no_paging [OF this] show ?thesis
    using assms(3) by (simp add: main_probed [OF assms(1,4)] thresholds auto_or_pass_pass)
qed

text \<open>Scenario 2 of the specification: 800 lines, 60 KB, offset 10, limit 50.\<close>

theorem paged_request_on_large_file_allowed_witness:
  "read_request (sample_request ''big.log'' (JInt 10) (JInt 50)) ''big.log''
     (JInt 10) (JInt 50) \<and>
   probed (sample_world ''big.log'' 800 61440) ''big.log'' 800 61440 \<and>
   main (sample_world ''big.log'' 800 61440)
     (Inr (sample_request ''big.log'' (JInt 10) (JInt 50))) =
     \<lparr>finish = SysExit 0, stdout = [], stderr = [],
      log = ''2025-01-01 12:00:00 | ALLOWED | lines=800 bytes=61440 | passed | big.log''
            @ nl\<rparr>"
proof -
  have r: "read_request (sample_request ''big.log'' (JInt 10) (JInt 50)) ''big.log''
      (JInt 10) (JInt 50)"
    by code_simp
  have p: "probed (sample_world ''big.log'' 800 61440) ''big.log'' 800 61440"
    by code_simp
  have g: "log_stats (sample_world ''big.log'' 800 61440) ''big.log'' 800 61440 False
      ''passed'' =
      ''2025-01-01 12:00:00 | ALLOWED | lines=800 bytes=61440 | passed | big.log'' @ nl"
    by code_simp
  show ?thesis
    using paged_request_on_large_file_allowed [OF r _ _ p] r p g by simp
qed

text \<open>
  Claim C6. When the line count or the byte size of an existing file with an extension
  that is not skipped cannot be determined, a Read request is allowed whatever its offset
  and limit are: exit status 0, nothing on stdout or stderr, the log untouched.
\<close>

theorem probe_failure_allows:
  assumes "read_request input_data file_path offset limit"
    and "guarded w file_path"
    and "get_file_line_count w file_path = None \<or> get_file_size w file_path = None"
  shows "main w (Inr input_data) =
     \<lparr>finish = SysExit 0, stdout = [], stderr = [], log = log_file w\<rparr>"
  using assms(2,3)
  by (auto simp: main_read_request [OF assms(1)] guarded_def exit0_def split: option.splits)

text \<open>A file that exists and cannot be opened, requested whole.\<close>

theorem probe_failure_allows_witness:
  "read_request (sample_request ''secret.txt'' JNull JNull) ''secret.txt'' JNull JNull \<and>
   guarded (locked_world ''secret.txt'') ''secret.txt'' \<and>
   get_file_line_count (locked_world ''secret.txt'') ''secret.txt'' = None \<and>
   main (locked_world ''secret.txt'') (Inr (sample_request ''secret.txt'' JNull JNull)) =
     \<lparr>finish = SysExit 0, stdout = [], stderr = [], log = []\<rparr>"
proof -
  have r: "read_request (sample_request ''secret.txt'' JNull JNull) ''secret.txt''
      JNull JNull"
    by code_simp
  have g: "guarded (locked_world ''secret.txt'') ''secret.txt''"
    by code_simp
  have n: "get_file_line_count (locked_world ''secret.txt'') ''secret.txt'' = None"
    by code_simp
  have l: "log_file (locked_world ''secret.txt'') = []"
    by code_simp
  show ?thesis
    using probe_failure_allows [OF r g disjI1 [OF n]] r g n l by simp
qed

text \<open>
  Claim C7. The source announces a ceiling of 20 KB per read (its docstring, the comment
  on \<open>MAX_SINGLE_READ_BYTES\<close>, the text of the paging diagnostic) and never tests it.
  A file that is a single line of 30000 bytes, requested whole, is a read of 30000 bytes,
  more than the 20480 of \<open>MAX_SINGLE_READ_BYTES\<close>, and it is allowed: exit status 0 and
  a log entry that says \<open>passed\<close>.
\<close>

theorem read_bytes_ceiling_not_enforced:
  "MAX_SINGLE_READ_BYTES = 20480 \<and>
   read_text_lines (long_line_world ''data.txt'') ''data.txt'' =
     Inr [replicate 30000 CHR ''a''] \<and>
   get_file_size (long_line_world ''data.txt'') ''data.txt'' = Some 30000 \<and>
   main (long_line_world ''data.txt'') (Inr (sample_request ''data.txt'' JNull JNull)) =
     \<lparr>finish = SysExit 0, stdout = [], stderr = [],
      log = ''2025-01-01 12:00:00 | ALLOWED | lines=1 bytes=30000 | passed | data.txt''
            @ nl\<rparr>"
proof -
  have r: "read_request (sample_request ''data.txt'' JNull JNull) ''data.txt'' JNull JNull"
    by code_simp
  have p: "probed (long_line_world ''data.txt'') ''data.txt'' 1 30000"
    by (simp add: probed_def guarded_def long_line_world_def get_file_line_count_def
        get_file_size_def splitext_def rfind_def lower_def lower_char_def SKIP_EXTENSIONS_def)
  have s: "str_int 1 = ''1''" "str_int 30000 = ''30000''"
    by code_simp+
  have sz: "get_file_size (long_line_world ''data.txt'') ''data.txt'' = Some 30000"
    by (simp add: get_file_size_def long_line_world_def)
  have rl: "read_text_lines (long_line_world ''data.txt'') ''data.txt'' =
      Inr [replicate 30000 CHR ''a'']"
    by (simp add: long_line_world_def)
  have lg: "log_stats (long_line_world ''data.txt'') ''data.txt'' 1 30000 False ''passed'' =
      ''2025-01-01 12:00:00 | ALLOWED | lines=1 bytes=30000 | passed | data.txt'' @ nl"
    by (simp add: log_stats_def long_line_world_def s nl_def)
  have "main_rules (long_line_world ''data.txt'') ''data.txt'' JNull JNull 1 30000 =
      auto_or_pass (long_line_world ''data.txt'') ''data.txt'' JNull JNull 1 30000"
    by (simp add: main_rules_no_paging thresholds)
  then have "main (long_line_world ''data.txt'')
      (Inr (sample_request ''data.txt'' JNull JNull)) =
      \<lparr>finish = SysExit 0, stdout = [], stderr = [],
       log = ''2025-01-01 12:00:00 | ALLOWED | lines=1 bytes=30000 | passed | data.txt''
             @ nl\<rparr>"
    by (simp add: main_probed [OF r p] auto_or_pass_pass lg)
  then show ?thesis
    using sz rl by (simp add: MAX_SINGLE_READ_BYTES_def)
qed




text \<open>
  Claim C9. When \<open>json.load\<close> rejects the payload, the process writes the hook error to
  stderr and leaves with status 1, with nothing on stdout and the log untouched; any
  exception of \<open>json.load\<close> ends with status 1. Status 1 differs from 0 and from 2, and
  every invocation ends with status 0, 1 or 2.
\<close>

theorem malformed_input_exit_status:
  "main w (Inl (JSONDecodeError e)) =
     \<lparr>finish = SysExit 1, stdout = [], stderr = [''[Hook Error] Invalid JSON: '' @ e],
      log = log_file w\<rparr> \<and>
   exit_status (main w (Inl x)) = 1 \<and>
   stdout (main w (Inl x)) = [] \<and>
   log (main w (Inl x)) = log_file w \<and>
   exit_status (main w (Inl x)) \<noteq> 0 \<and>
   exit_status (main w (Inl x)) \<noteq> 2 \<and>
   exit_status (main w payload) \<in> {0, 1, 2}"
proof -
  have bad: "exit_status (main w (Inl y)) = 1 \<and> stdout (main w (Inl y)) = [] \<and>
      log (main w (Inl y)) = log_file w" for y
    by (cases y) (simp_all add: main_def exit_status_def uncaught_def)
  have good: "exit_status (main w (Inr d)) \<in> {0, 1, 2}" for d
    by (rule exit_status_main)
  have "exit_status (main w payload) \<in> {0, 1, 2}"
    using bad good by (cases payload) auto
  then show ?thesis
    using bad [of x] by (simp add: main_def)
qed

text \<open>A payload that is no JSON, and a well-formed request, on the same machine.\<close>

theorem malformed_input_exit_status_witness:
  "main (sample_world ''notes.txt'' 1200 10240) (Inl (JSONDecodeError ''Expecting value'')) =
     \<lparr>finish = SysExit 1, stdout = [],
      stderr = [''[Hook Error] Invalid JSON: Expecting value''], log = []\<rparr> \<and>
   exit_status (main (sample_world ''notes.txt'' 1200 10240)
     (Inr (sample_request ''notes.txt'' JNull JNull))) \<in> {0, 1, 2}"
  using malformed_input_exit_status [of "sample_world ''notes.txt'' 1200 10240"
      "''Expecting value''" UnicodeDecodeError "Inr (sample_request ''notes.txt'' JNull JNull)"]
  by (simp add: sample_world_def)

text \<open>
  Claim C10. An offset of 0 is an offset that was supplied. On an existing file with an
  extension that is not skipped whose metrics exceed a file threshold, offset 0 with a
  limit keeps rule 1 from firing: the request passes when the limit is at most 500, and
  a larger limit is blocked by rule 2 with its own diagnostic. Where the rules are
  evaluated and do not block, offset 0 without a limit is allowed with the directive
  that sets the limit to 500, and stdout is not empty as it is for a plain Allow.
\<close>

theorem zero_offset_counts_as_supplied:
  assumes "probed w file_path file_lines file_bytes"
  shows "(read_request input_data file_path (JInt 0) (JInt l) \<and>
      (1000 < file_lines \<or> 51200 < file_bytes) \<longrightarrow>
      (if 500 < l
       then finish (main w (Inr input_data)) = SysExit 2 \<and>
            stderr (main w (Inr input_data)) =
              [''BLOCKED: Requested limit='' @ str_int l @ '' exceeds maximum 500 lines.''
               @ nl @ ''Please reduce the limit parameter to 500 or less.'']
       else main w (Inr input_data) =
              \<lparr>finish = SysExit 0, stdout = [], stderr = [],
               log = log_stats w file_path file_lines file_bytes False ''passed''\<rparr>)) \<and>
     (read_request input_data' file_path (JInt 0) JNull \<and>
      finish (main w (Inr input_data')) \<noteq> SysExit 2 \<longrightarrow>
      (\<exists>size_text. format_bytes file_bytes = Inr size_text \<and>
         finish (main w (Inr input_data')) = SysExit 0 \<and>
         stderr (main w (Inr input_data')) = [] \<and>
         stdout (main w (Inr input_data')) =
           [JObj [(''hookSpecificOutput'', JObj
             [(''hookEventName'', JStr ''PreToolUse''),
              (''permissionDecision'', JStr ''allow''),
              (''permissionDecisionReason'', JStr (''Auto-added limit=500 (file: ''
                 @ str_int file_lines @ '' lines, '' @ size_text @ '')'')),
              (''updatedInput'', JObj [(''limit'', JInt 500)])])]]))"
proof (intro conjI impI)
  assume a: "read_request input_data file_path (JInt 0) (JInt l) \<and>
      (1000 < file_lines \<or> 51200 < file_bytes)"
  have "\<not> ((MAX_FILE_LINES < file_lines \<or> MAX_FILE_BYTES < file_bytes) \<and>
      (JInt 0 = JNull \<or> JInt l = JNull))"
    by simp
  from main_rules_no_paging [OF this]
  show "if 500 < l
       then finish (main w (Inr input_data)) = SysExit 2 \<and>
            stderr (main w (Inr input_data)) =
              [''BLOCKED: Requested limit='' @ str_int l @ '' exceeds maximum 500 lines.''
               @ nl @ ''Please reduce the limit parameter to 500 or less.'']
       else main w (Inr input_data) =
              \<lparr>finish = SysExit 0, stdout = [], stderr = [],
               log = log_stats w file_path file_lines file_bytes False ''passed''\<rparr>"
    using a
    by (simp add: main_probed [OF conjunct1 [OF a] assms] thresholds limit_block_def
        limit_msg_text auto_or_pass_pass)
next
  assume b: "read_request input_data' file_path (JInt 0) JNull \<and>
      finish (main w (Inr input_data')) \<noteq> SysExit 2"
  obtain size_text where fb: "format_bytes file_bytes = Inr size_text"
    using probed_format [OF assms] by auto
  have rules: "main w (Inr input_data') =
      main_rules w file_path (JInt 0) JNull file_lines file_bytes"
    by (rule main_probed [OF conjunct1 [OF b] assms])
  have "\<not> (MAX_FILE_LINES < file_lines \<or> MAX_FILE_BYTES < file_bytes)"
  proof
    assume over: "MAX_FILE_LINES < file_lines \<or> MAX_FILE_BYTES < file_bytes"
    have part: "JInt 0 = JNull \<or> JNull = JNull"
      by simp
    have "finish (main_rules w file_path (JInt 0) JNull file_lines file_bytes) = SysExit 2"
      by (simp add: main_rules_paging [OF over part fb] Let_def)
    with b rules show False by simp
  qed
  then have "main_rules w file_path (JInt 0) JNull file_lines file_bytes =
      auto_or_pass w file_path (JInt 0) JNull file_lines file_bytes"
    by (simp add: main_rules_no_paging)
  then show "\<exists>size_text. format_bytes file_bytes = Inr size_text \<and>
         finish (main w (Inr input_data')) = SysExit 0 \<and>
         stderr (main w (Inr input_data')) = [] \<and>
         stdout (main w (Inr input_data')) =
           [JObj [(''hookSpecificOutput'', JObj
             [(''hookEventName'', JStr ''PreToolUse''),
              (''permissionDecision'', JStr ''allow''),
              (''permissionDecisionReason'', JStr (''Auto-added limit=500 (file: ''
                 @ str_int file_lines @ '' lines, '' @ size_text @ '')'')),
              (''updatedInput'', JObj [(''limit'', JInt 500)])])]]"
    using fb by (simp add: rules auto_or_pass_auto [OF _ fb] auto_limit_output_text)
qed

text \<open>
  Offset 0 and limit 50 on a file of 800 lines and 60 KB; offset 0 and no limit on a
  file of 50 lines and 2 KB.
\<close>

theorem zero_offset_counts_as_supplied_witness:
  "probed (sample_world ''big.log'' 800 61440) ''big.log'' 800 61440 \<and>
   read_request (sample_request ''big.log'' (JInt 0) (JInt 50)) ''big.log''
     (JInt 0) (JInt 50) \<and>
   finish (main (sample_world ''big.log'' 800 61440)
     (Inr (sample_request ''big.log'' (JInt 0) (JInt 50)))) = SysExit 0 \<and>
   stderr (main (sample_world ''big.log'' 800 61440)
     (Inr (sample_request ''big.log'' (JInt 0) (JInt 50)))) = [] \<and>
   probed (sample_world ''small.txt'' 50 2048) ''small.txt'' 50 2048 \<and>
   read_request (sample_request ''small.txt'' (JInt 0) JNull) ''small.txt'' (JInt 0) JNull \<and>
   stdout (main (sample_world ''small.txt'' 50 2048)
     (Inr (sample_request ''small.txt'' (JInt 0) JNull))) =
       [JObj [(''hookSpecificOutput'', JObj
         [(''hookEventName'', JStr ''PreToolUse''),
          (''permissionDecision'', JStr ''allow''),
          (''permissionDecisionReason'',
             JStr ''Auto-added limit=500 (file: 50 lines, 2.0KB)''),
          (''updatedInput'', JObj [(''limit'', JInt 500)])])]]"
proof -
  have p1: "probed (sample_world ''big.log'' 800 61440) ''big.log'' 800 61440"
    by code_simp
  have r1: "read_request (sample_request ''big.log'' (JInt 0) (JInt 50)) ''big.log''
      (JInt 0) (JInt 50)"
    by code_simp
  have p2: "probed (sample_world ''small.txt'' 50 2048) ''small.txt'' 50 2048"
    by code_simp
  have r2: "read_request (sample_request ''small.txt'' (JInt 0) JNull) ''small.txt''
      (JInt 0) JNull"
    by code_simp
  have n2: "finish (main (sample_world ''small.txt'' 50 2048)
      (Inr (sample_request ''small.txt'' (JInt 0) JNull))) \<noteq> SysExit 2"
    by code_simp
  have s: "str_int 50 = ''50''" "format_bytes 2048 = Inr ''2.0KB''"
    by code_simp+
  have first: "finish (main (sample_world ''big.log'' 800 61440)
      (Inr (sample_request ''big.log'' (JInt 0) (JInt 50)))) = SysExit 0 \<and>
    stderr (main (sample_world ''big.log'' 800 61440)
      (Inr (sample_request ''big.log'' (JInt 0) (JInt 50)))) = []"
    using zero_offset_counts_as_supplied [OF p1,
        of "sample_request ''big.log'' (JInt 0) (JInt 50)" 50] r1
    by simp
  have second: "stdout (main (sample_world ''small.txt'' 50 2048)
     (Inr (sample_request ''small.txt'' (JInt 0) JNull))) =
       [JObj [(''hookSpecificOutput'', JObj
         [(''hookEventName'', JStr ''PreToolUse''),
          (''permissionDecision'', JStr ''allow''),
          (''permissionDecisionReason'',
             JStr ''Auto-added limit=500 (file: 50 lines, 2.0KB)''),
          (''updatedInput'', JObj [(''limit'', JInt 500)])])]]"
    using zero_offset_counts_as_supplied [OF p2,
        where input_data' = "sample_request ''small.txt'' (JInt 0) JNull"] r2 n2 s
    by auto
  show ?thesis
    using p1 r1 p2 r2 first second by simp
qed

end
